theory Spec2Isabelle
  imports Complex_Main
begin

section \<open>Decimal values\<close>

text \<open>
  Modelled from the spec: the Decimal Value Model. The validators use it through the
  arbitrary-precision decimal library they import (\<open>BigNumber\<close>); the library is not part
  of the repository's sources. A decimal is not-a-number, an infinity with its sign, or a
  finite value with a sign, a coefficient and a power of ten: \<open>Finite neg m ex\<close> stands
  for \<open>(if neg then -1 else 1) * m * 10^ex\<close>. The sign is kept apart from the coefficient,
  so there is a positive and a negative zero, as in the library. The predicates are the
  library's: \<open>isPositive\<close> and \<open>isNegative\<close> read the sign field only, \<open>isZero\<close>,
  \<open>isFinite\<close> and \<open>isInteger\<close> read the coefficient.
\<close>

datatype decimal = NaN | Infinity bool | Finite bool nat int

fun isNaN :: "decimal \<Rightarrow> bool" where
  "isNaN NaN = True"
| "isNaN _ = False"

text \<open>The sign field \<open>s\<close>: 1, -1, or no sign (here 0) for not-a-number.\<close>

fun sign :: "decimal \<Rightarrow> int" where
  "sign NaN = 0"
| "sign (Infinity n) = (if n then - 1 else 1)"
| "sign (Finite n m ex) = (if n then - 1 else 1)"

fun isFinite :: "decimal \<Rightarrow> bool" where
  "isFinite (Finite n m ex) = True"
| "isFinite _ = False"

fun isZero :: "decimal \<Rightarrow> bool" where
  "isZero (Finite n m ex) = (m = 0)"
| "isZero _ = False"

definition isPositive :: "decimal \<Rightarrow> bool" where
  "isPositive x = (sign x > 0)"

definition isNegative :: "decimal \<Rightarrow> bool" where
  "isNegative x = (sign x < 0)"

fun isInteger :: "decimal \<Rightarrow> bool" where
  "isInteger (Finite n m ex) = (ex \<ge> 0 \<or> m mod 10 ^ nat (- ex) = 0)"
| "isInteger _ = False"

text \<open>
  Comparison, in the library's order of cases: not-a-number first (no result), then
  zeros, then differing signs, then infinities, then the magnitudes of two finite values
  of the same sign, compared after scaling both coefficients to the smaller exponent.
\<close>

definition magnitude_compare :: "nat \<Rightarrow> int \<Rightarrow> nat \<Rightarrow> int \<Rightarrow> int" where
  "magnitude_compare m1 e1 m2 e2 =
     (let d = min e1 e2;
          a = m1 * 10 ^ nat (e1 - d);
          b = m2 * 10 ^ nat (e2 - d)
      in if a < b then - 1 else if a = b then 0 else 1)"

fun compare :: "decimal \<Rightarrow> decimal \<Rightarrow> int option" where
  "compare x y =
     (if isNaN x \<or> isNaN y then None
      else if isZero x \<or> isZero y
        then Some (if isZero x then (if isZero y then 0 else - sign y) else sign x)
      else if sign x \<noteq> sign y then Some (sign x)
      else (case (x, y) of
              (Finite n1 m1 e1, Finite n2 m2 e2) \<Rightarrow>
                Some (if sign x < 0 then - magnitude_compare m1 e1 m2 e2
                      else magnitude_compare m1 e1 m2 e2)
            | _ \<Rightarrow>
                Some (if isFinite x = isFinite y then 0
                      else if (\<not> isFinite x) \<noteq> (sign x < 0) then 1 else - 1)))"

definition isLessThanOrEqualTo :: "decimal \<Rightarrow> decimal \<Rightarrow> bool" where
  "isLessThanOrEqualTo x y = (compare x y = Some (- 1) \<or> compare x y = Some 0)"

subsection \<open>Parsing a decimal from a string\<close>

text \<open>
  Modelled from the spec: \<open>parse\<close> of the Decimal Value Model, as the library's
  constructor does it for a string and no base argument. A string is a list of 8-bit
  characters. The numeric form is an optional minus sign, digits with an optional
  fraction (or a fraction alone), and an optional exponent part, with nothing before or
  after. Any other string goes through \<open>parseNumeric\<close>: surrounding white space and one
  leading plus sign are removed, \<open>Infinity\<close> and \<open>NaN\<close> (with an optional minus sign)
  are recognised, a string that changed is parsed again, and everything else is
  not-a-number: a failed parse raises nothing. Exponents beyond the library's range
  overflow to infinity or underflow to zero. Literals with a base prefix (\<open>0x\<close>,
  \<open>0b\<close>, \<open>0o\<close>), which the library converts from base 16, 2 or 8, are outside the
  model: it takes them as not numeric.
\<close>

definition isDigit :: "char \<Rightarrow> bool" where
  "isDigit c = (c \<in> set ''0123456789'')"

definition digitValue :: "char \<Rightarrow> nat" where
  "digitValue c = of_char c - 48"

definition digitsValue :: "string \<Rightarrow> nat" where
  "digitsValue ds = foldl (\<lambda>a c. 10 * a + digitValue c) 0 ds"

definition MAX_EXP :: int where
  "MAX_EXP = 1000000000"

definition MIN_EXP :: int where
  "MIN_EXP = - 1000000000"

text \<open>The exponent part: empty, or \<open>e\<close> or \<open>E\<close>, an optional sign, and digits.\<close>

definition parseExponent :: "string \<Rightarrow> int option" where
  "parseExponent s =
     (case s of
        [] \<Rightarrow> Some 0
      | c # r \<Rightarrow>
          if c = CHR ''e'' \<or> c = CHR ''E'' then
            (let neg = (case r of d # _ \<Rightarrow> d = CHR ''-'' | [] \<Rightarrow> False);
                 ds = (case r of
                         d # r' \<Rightarrow> if d = CHR ''+'' \<or> d = CHR ''-'' then r' else r
                       | [] \<Rightarrow> r)
             in if ds \<noteq> [] \<and> list_all isDigit ds
                then Some (if neg then - int (digitsValue ds) else int (digitsValue ds))
                else None)
          else None)"

text \<open>
  The numeric form, split into sign, integer digits, fraction digits and exponent;
  \<open>None\<close> when the string is not of that form.
\<close>

definition splitNumeric :: "string \<Rightarrow> (bool \<times> string \<times> string \<times> int) option" where
  "splitNumeric str =
     (let neg = (case str of c # _ \<Rightarrow> c = CHR ''-'' | [] \<Rightarrow> False);
          s = (if neg then tl str else str);
          ip = takeWhile isDigit s;
          r1 = dropWhile isDigit s;
          dot = (case r1 of c # _ \<Rightarrow> c = CHR ''.'' | [] \<Rightarrow> False);
          fp = (if dot then takeWhile isDigit (tl r1) else []);
          r2 = (if dot then dropWhile isDigit (tl r1) else r1)
      in if ip \<noteq> [] \<or> (dot \<and> fp \<noteq> [])
         then (case parseExponent r2 of
                 Some ex \<Rightarrow> Some (neg, ip, fp, ex)
               | None \<Rightarrow> None)
         else None)"

text \<open>
  The value of the parts. \<open>e\<close> is the exponent of the first non-zero digit, which the
  library checks against its exponent range.
\<close>

definition fromParts :: "bool \<times> string \<times> string \<times> int \<Rightarrow> decimal" where
  "fromParts p =
     (case p of (neg, ip, fp, ex) \<Rightarrow>
        (let ds = ip @ fp;
             m = digitsValue ds;
             i = length (takeWhile (\<lambda>c. c = CHR ''0'') ds);
             e = int (length ip) + ex - int i - 1
         in if m = 0 then Finite neg 0 0
            else if e > MAX_EXP then Infinity neg
            else if e < MIN_EXP then Finite neg 0 0
            else Finite neg m (ex - int (length fp))))"

definition isSpace :: "char \<Rightarrow> bool" where
  "isSpace c =
     (c \<in> set [CHR 0x09, CHR 0x0A, CHR 0x0B, CHR 0x0C, CHR 0x0D, CHR 0x20, CHR 0xA0])"

definition isWordChar :: "char \<Rightarrow> bool" where
  "isWordChar c =
     (c \<in> set ''abcdefghijklmnopqrstuvwxyzABCDEFGHIJKLMNOPQRSTUVWXYZ0123456789_'')"

definition stripWhitespaceOrPlus :: "string \<Rightarrow> string" where
  "stripWhitespaceOrPlus str =
     (let r = dropWhile isSpace str;
          r' = (case r of
                  c # d # _ \<Rightarrow>
                    if c = CHR ''+'' \<and> (isWordChar d \<or> d = CHR ''.'') then tl r else r
                | _ \<Rightarrow> r)
      in rev (dropWhile isSpace (rev r')))"

definition parseNumeric :: "string \<Rightarrow> decimal" where
  "parseNumeric str =
     (let s = stripWhitespaceOrPlus str
      in if s = ''NaN'' \<or> s = ''-NaN'' then NaN
         else if s = ''Infinity'' then Infinity False
         else if s = ''-Infinity'' then Infinity True
         else if str \<noteq> s
           then (case splitNumeric s of Some p \<Rightarrow> fromParts p | None \<Rightarrow> NaN)
         else NaN)"

definition fromString :: "string \<Rightarrow> decimal" where
  "fromString str =
     (case splitNumeric str of Some p \<Rightarrow> fromParts p | None \<Rightarrow> parseNumeric str)"

subsection \<open>Printing a decimal\<close>

text \<open>
  The string a number or a decimal value converts to (the language's \<open>String(v)\<close> of
  a number, the library's \<open>toString\<close> of a decimal value; the two agree): fixed
  notation, and exponential notation when the exponent of the first digit is at most -7
  or at least 21. A negative zero prints as \<open>0\<close>.
\<close>

fun natDigits :: "nat \<Rightarrow> string" where
  "natDigits n =
     (if n < 10 then [char_of (48 + n)]
      else natDigits (n div 10) @ [char_of (48 + n mod 10)])"

definition decimalToString :: "decimal \<Rightarrow> string" where
  "decimalToString x =
     (case x of
        NaN \<Rightarrow> ''NaN''
      | Infinity neg \<Rightarrow> (if neg then ''-Infinity'' else ''Infinity'')
      | Finite neg m ex \<Rightarrow>
          if m = 0 then ''0''
          else
            (let all = natDigits m;
                 ds = rev (dropWhile (\<lambda>c. c = CHR ''0'') (rev all));
                 k = int (length ds);
                 n = ex + int (length all);
                 e = n - 1;
                 body =
                   (if e \<le> - 7 \<or> 21 \<le> e
                    then [hd ds] @ (if 1 < k then ''.'' @ tl ds else [])
                         @ (if e < 0 then ''e-'' else ''e+'') @ natDigits (nat \<bar>e\<bar>)
                    else if n \<le> 0 then ''0.'' @ replicate (nat (- n)) (CHR ''0'') @ ds
                    else if k \<le> n then ds @ replicate (nat (n - k)) (CHR ''0'')
                    else take (nat n) ds @ ''.'' @ drop (nat n) ds)
             in (if neg then ''-'' else []) @ body))"

section \<open>Values of the language\<close>

text \<open>
  The validators receive values of any type. A number is represented by the decimal that
  its string conversion denotes. Objects carry a reference, their identity: two objects
  are the same object when their references are equal. \<open>BigNum\<close> is an instance of the
  decimal library's class, \<open>Array\<close> an array with its elements, and \<open>Object\<close> any other
  object, of which only the result of converting it to a string matters here: the string,
  or \<open>None\<close> when the conversion throws. Such an object has no property named
  \<open>length\<close> or \<open>concat\<close>.
\<close>

type_synonym ref = nat

datatype jsval =
    Undefined
  | Null
  | Boolean bool
  | Number decimal
  | Str string
  | BigNum ref decimal
  | Array ref "jsval list"
  | Object ref "string option"

datatype jserror = TypeError | NotImplementedError

fun typeof :: "jsval \<Rightarrow> string" where
  "typeof Undefined = ''undefined''"
| "typeof (Boolean b) = ''boolean''"
| "typeof (Number d) = ''number''"
| "typeof (Str s) = ''string''"
| "typeof _ = ''object''"

fun joinStrings :: "string list \<Rightarrow> string" where
  "joinStrings [] = []"
| "joinStrings [s] = s"
| "joinStrings (s # t # ss) = s @ '','' @ joinStrings (t # ss)"

fun sequence :: "'a option list \<Rightarrow> 'a list option" where
  "sequence [] = Some []"
| "sequence (x # xs) =
     (case x of
        None \<Rightarrow> None
      | Some y \<Rightarrow> (case sequence xs of None \<Rightarrow> None | Some ys \<Rightarrow> Some (y # ys)))"

text \<open>
  \<open>String(v)\<close>: \<open>None\<close> when the conversion throws. An array joins the strings of
  its elements with commas, with the empty string for \<open>undefined\<close> and \<open>null\<close>.
\<close>

fun ToString :: "jsval \<Rightarrow> string option" where
  "ToString Undefined = Some ''undefined''"
| "ToString Null = Some ''null''"
| "ToString (Boolean b) = Some (if b then ''true'' else ''false'')"
| "ToString (Number d) = Some (decimalToString d)"
| "ToString (Str s) = Some s"
| "ToString (BigNum r b) = Some (decimalToString b)"
| "ToString (Array r xs) =
     map_option joinStrings
       (sequence (map (\<lambda>x. if x = Undefined \<or> x = Null then Some [] else ToString x) xs))"
| "ToString (Object r s) = s"

text \<open>
  Modelled from the spec: the constructor of the decimal library, \<open>new BigNumber(v)\<close>
  with no base argument. An instance is copied, a number gives the decimal it prints as,
  and every other value is converted to a string and parsed. The only error is the one
  the string conversion throws.
\<close>

definition BigNumber_new :: "jsval \<Rightarrow> jserror + decimal" where
  "BigNumber_new v =
     (case v of
        BigNum r b \<Rightarrow> Inr b
      | Number d \<Rightarrow> Inr d
      | _ \<Rightarrow> (case ToString v of None \<Rightarrow> Inl TypeError | Some str \<Rightarrow> Inr (fromString str)))"

text \<open>
  Strict equality (\<open>===\<close>): by content on primitive values, where a not-a-number equals
  nothing and the two zeros are equal, and by identity on objects.
\<close>

fun strictEquals :: "jsval \<Rightarrow> jsval \<Rightarrow> bool" where
  "strictEquals Undefined Undefined = True"
| "strictEquals Null Null = True"
| "strictEquals (Boolean a) (Boolean b) = (a = b)"
| "strictEquals (Number x) (Number y) = (compare x y = Some 0)"
| "strictEquals (Str a) (Str b) = (a = b)"
| "strictEquals (BigNum r x) (BigNum r' y) = (r = r')"
| "strictEquals (Array r xs) (Array r' ys) = (r = r')"
| "strictEquals (Object r s) (Object r' t) = (r = r')"
| "strictEquals _ _ = False"

text \<open>
  The equality of a \<open>Set\<close>: strict equality, but a not-a-number equals a not-a-number.
\<close>

fun sameValueZero :: "jsval \<Rightarrow> jsval \<Rightarrow> bool" where
  "sameValueZero (Number x) (Number y) = ((isNaN x \<and> isNaN y) \<or> compare x y = Some 0)"
| "sameValueZero x y = strictEquals x y"

text \<open>
  A \<open>Set\<close> is the list of its elements in insertion order; \<open>new Set(xs)\<close> adds the
  elements of \<open>xs\<close> one by one, and an element already in the set is not added again.
\<close>

definition Set_has :: "jsval list \<Rightarrow> jsval \<Rightarrow> bool" where
  "Set_has s v = list_ex (\<lambda>x. sameValueZero x v) s"

definition Set_add :: "jsval list \<Rightarrow> jsval \<Rightarrow> jsval list" where
  "Set_add s v = (if Set_has s v then s else s @ [v])"

definition new_Set :: "jsval list \<Rightarrow> jsval list" where
  "new_Set xs = foldl Set_add [] xs"

definition Set_size :: "jsval list \<Rightarrow> nat" where
  "Set_size xs = length (new_Set xs)"

text \<open>
  \<open>v.length\<close>: reading a property of \<open>undefined\<close> or \<open>null\<close> throws; a string and an
  array have a length; on any other value the property is \<open>undefined\<close> (here \<open>None\<close>).
\<close>

definition lengthProperty :: "jsval \<Rightarrow> jserror + nat option" where
  "lengthProperty v =
     (case v of
        Undefined \<Rightarrow> Inl TypeError
      | Null \<Rightarrow> Inl TypeError
      | Str s \<Rightarrow> Inr (Some (length s))
      | Array r xs \<Rightarrow> Inr (Some (length xs))
      | _ \<Rightarrow> Inr None)"

text \<open>
  \<open>BigNumber.isBigNumber(v)\<close>, by the library's contract: whether \<open>v\<close> is an instance
  of its class.
\<close>

definition isBigNumber :: "jsval \<Rightarrow> bool" where
  "isBigNumber v = (case v of BigNum r b \<Rightarrow> True | _ \<Rightarrow> False)"

section \<open>The validators\<close>

text \<open>
  Each function below is the \<open>validate\<close> method that the decorator of that name
  registers. Its first argument is the value of the decorated property; a decorator with
  a related property reads it from the validated object, and its value is the second
  argument (\<open>undefined\<close> when the object has no such property). A method that can throw
  returns the error on the left.
\<close>

definition IsDifferentValue_validate :: "jsval \<Rightarrow> jsval \<Rightarrow> jserror + bool" where
  "IsDifferentValue_validate value relatedValue =
     (if (typeof value \<noteq> ''string'' \<and> \<not> strictEquals value Undefined)
         \<or> (typeof relatedValue \<noteq> ''string'' \<and> \<not> strictEquals relatedValue Undefined)
      then Inl NotImplementedError
      else Inr (\<not> strictEquals value relatedValue))"

text \<open>
  \<open>relatedValue.concat(value)\<close> is the method of an array (which appends the elements
  of an array argument, and any other argument as one element) or of a string (which
  appends the argument's string); no other value of the model has the method, and
  calling it throws. A \<open>Set\<close> built from a string holds its characters. The sum
  \<open>relatedValue.length + value.length\<close> is not a number when \<open>value.length\<close> is
  \<open>undefined\<close>, and then the comparison is false.
\<close>

definition ArrayUniqueConcat_validate :: "jsval \<Rightarrow> jsval \<Rightarrow> jserror + bool" where
  "ArrayUniqueConcat_validate value relatedValue =
     (case relatedValue of
        Array r A \<Rightarrow>
          (let totalUniques = Set_size (A @ (case value of Array r' B \<Rightarrow> B | _ \<Rightarrow> [value]))
           in case lengthProperty value of
                Inl e \<Rightarrow> Inl e
              | Inr None \<Rightarrow> Inr False
              | Inr (Some n) \<Rightarrow> Inr (totalUniques = length A + n))
      | Str s \<Rightarrow>
          (case ToString value of
             None \<Rightarrow> Inl TypeError
           | Some t \<Rightarrow>
               (let totalUniques = length (remdups (s @ t))
                in case lengthProperty value of
                     Inl e \<Rightarrow> Inl e
                   | Inr None \<Rightarrow> Inr False
                   | Inr (Some n) \<Rightarrow> Inr (totalUniques = length s + n)))
      | _ \<Rightarrow> Inl TypeError)"

text \<open>
  The type constraint \<open>IsBigNumber\<close>, which each of the five decorators below also
  registers on the same property.
\<close>

definition IsBigNumber_validate :: "jsval \<Rightarrow> bool" where
  "IsBigNumber_validate value = isBigNumber value"

definition validateBigNumberOrIgnore :: "jsval \<Rightarrow> (decimal \<Rightarrow> bool) \<Rightarrow> bool" where
  "validateBigNumberOrIgnore obj fn =
     (if isBigNumber obj then (case obj of BigNum r b \<Rightarrow> fn b | _ \<Rightarrow> True) else True)"

definition BigNumberIsPositive_validate :: "jsval \<Rightarrow> bool" where
  "BigNumberIsPositive_validate value = validateBigNumberOrIgnore value (\<lambda>b. isPositive b)"

definition BigNumberIsNegative_validate :: "jsval \<Rightarrow> bool" where
  "BigNumberIsNegative_validate value = validateBigNumberOrIgnore value (\<lambda>b. isNegative b)"

definition BigNumberIsNotInfinity_validate :: "jsval \<Rightarrow> bool" where
  "BigNumberIsNotInfinity_validate value = validateBigNumberOrIgnore value (\<lambda>b. isFinite b)"

definition BigNumberIsNotNegative_validate :: "jsval \<Rightarrow> bool" where
  "BigNumberIsNotNegative_validate value =
     validateBigNumberOrIgnore value (\<lambda>b. \<not> isNegative b)"

definition BigNumberIsInteger_validate :: "jsval \<Rightarrow> bool" where
  "BigNumberIsInteger_validate value = validateBigNumberOrIgnore value (\<lambda>b. isInteger b)"

text \<open>\<open>value instanceof BigNumber && !value.isZero()\<close>.\<close>

definition IsNonZeroBigNumber_validate :: "jsval \<Rightarrow> bool" where
  "IsNonZeroBigNumber_validate value =
     (case value of BigNum r b \<Rightarrow> \<not> isZero b | _ \<Rightarrow> False)"

text \<open>
  \<open>BigNumberMax(maxValue)\<close> computes \<open>max = new BigNumber(maxValue)\<close> once, when the
  decorator is applied; \<open>maxv\<close> is that decimal. The method constructs a decimal from
  the value inside a \<open>try\<close> block, and whatever the construction throws makes it
  return false.
\<close>

definition BigNumberMax_validate :: "decimal \<Rightarrow> jsval \<Rightarrow> bool" where
  "BigNumberMax_validate maxv value =
     (case BigNumber_new value of
        Inr bn \<Rightarrow> isLessThanOrEqualTo bn maxv
      | Inl e \<Rightarrow> False)"

section \<open>Batch-submit authority registry\<close>

text \<open>
  The chaincode module keeps one ledger object, \<open>LaunchpadBatchSubmitAuthorities\<close>,
  under the composite key built from its \<open>INDEX_KEY\<close> and an empty list of key parts.
  The functions below are the five exported functions of that module.
\<close>

datatype ErrorCode = NOT_FOUND | WRITE_ERROR

datatype ChainError = ChainError ErrorCode

fun matches :: "ChainError \<Rightarrow> ErrorCode \<Rightarrow> bool" where
  "matches (ChainError c) c' = (c = c')"

record LaunchpadBatchSubmitAuthorities =
  authorities :: "string list"

text \<open>
  Modelled from the spec: the methods of the class \<open>LaunchpadBatchSubmitAuthorities\<close>
  (declared in the api module, which the chaincode module only imports). The spec's data
  model: the record holds the principal identifiers deduplicated; adding a principal is a
  no-op if it is already present; removing one is a no-op if it is absent; membership is
  the sole authorization source.
\<close>

definition addAuthority ::
  "LaunchpadBatchSubmitAuthorities \<Rightarrow> string \<Rightarrow> LaunchpadBatchSubmitAuthorities" where
  "addAuthority a p =
     (if p \<in> set (authorities a) then a else a\<lparr>authorities := authorities a @ [p]\<rparr>)"


definition getAuthorities :: "LaunchpadBatchSubmitAuthorities \<Rightarrow> string list" where
  "getAuthorities a = authorities a"

definition isAuthorized :: "LaunchpadBatchSubmitAuthorities \<Rightarrow> string \<Rightarrow> bool" where
  "isAuthorized a u = (u \<in> set (authorities a))"

text \<open>
  The context of a call: the calling user, and what the world state holds under the
  composite key of the authority record (nothing, or the record).
\<close>

record GalaChainContext =
  callingUser :: string
  state :: "LaunchpadBatchSubmitAuthorities option"

text \<open>
  Modelled from the spec: the persistence collaborator (\<open>getObjectByKey\<close> and
  \<open>putChainObject\<close> of the chaincode library), as the spec's external interfaces give
  it. A read returns the stored record, or signals \<open>NOT_FOUND\<close> when nothing is stored
  under the key; it has no other error. A write either replaces what is stored under the
  object's own composite key, or signals a write error and stores nothing. Whether a
  write accepts an object is decided outside the chaincode module (by the validation the
  class declares in the api module, and by the store), so it is a parameter of the
  model: \<open>accepts\<close>.
\<close>

definition getObjectByKey :: "GalaChainContext \<Rightarrow> ChainError + LaunchpadBatchSubmitAuthorities" where
  "getObjectByKey ctx =
     (case state ctx of
        None \<Rightarrow> Inl (ChainError NOT_FOUND)
      | Some a \<Rightarrow> Inr a)"

definition putChainObject ::
  "(LaunchpadBatchSubmitAuthorities \<Rightarrow> bool) \<Rightarrow> GalaChainContext
     \<Rightarrow> LaunchpadBatchSubmitAuthorities \<Rightarrow> ChainError + GalaChainContext" where
  "putChainObject accepts ctx a =
     (if accepts a then Inr (ctx\<lparr>state := Some a\<rparr>) else Inl (ChainError WRITE_ERROR))"

definition fetchLaunchpadBatchSubmitAuthorities ::
  "GalaChainContext \<Rightarrow> ChainError + LaunchpadBatchSubmitAuthorities" where
  "fetchLaunchpadBatchSubmitAuthorities ctx = getObjectByKey ctx"

text \<open>
  Each operation returns the error it throws, or its response (the \<open>authorities\<close> field
  of \<open>BatchSubmitAuthoritiesResDto\<close>) together with the context after its writes.
  After the write's parameter and the context, the argument is the one field of the
  request object (\<open>dto.authorities\<close>, \<open>dto.authority\<close>).
\<close>

definition authorizeLaunchpadBatchSubmitter ::
  "(LaunchpadBatchSubmitAuthorities \<Rightarrow> bool) \<Rightarrow> GalaChainContext \<Rightarrow> string list
     \<Rightarrow> ChainError + (string list \<times> GalaChainContext)" where
  "authorizeLaunchpadBatchSubmitter accepts ctx dto_authorities =
     (case (case getObjectByKey ctx of
              Inl chainError \<Rightarrow>
                (if matches chainError NOT_FOUND
                 then Inr \<lparr>authorities = []\<rparr>
                 else Inl chainError)
            | Inr a \<Rightarrow> Inr a) of
        Inl chainError \<Rightarrow> Inl chainError
      | Inr a \<Rightarrow>
          (let a' = foldl addAuthority a dto_authorities
           in case putChainObject accepts ctx a' of
                Inl e \<Rightarrow> Inl e
              | Inr ctx' \<Rightarrow> Inr (getAuthorities a', ctx')))"



definition isAuthorizedForLaunchpadBatchSubmit :: "GalaChainContext \<Rightarrow> ChainError + bool" where
  "isAuthorizedForLaunchpadBatchSubmit ctx =
     (case fetchLaunchpadBatchSubmitAuthorities ctx of
        Inl e \<Rightarrow> Inl e
      | Inr a \<Rightarrow> Inr (isAuthorized a (callingUser ctx)))"

text \<open>
  The data model's invariant on what is stored: the authority record, when there is one,
  has no duplicate entries. The authority set of a ledger is the stored list, and the
  empty list when no record is stored.
\<close>

definition authority_set_invariant :: "LaunchpadBatchSubmitAuthorities option \<Rightarrow> bool" where
  "authority_set_invariant st =
     (case st of Some a \<Rightarrow> distinct (authorities a) | None \<Rightarrow> True)"

definition storedAuthorities :: "GalaChainContext \<Rightarrow> string list" where
  "storedAuthorities ctx = (case state ctx of Some a \<Rightarrow> authorities a | None \<Rightarrow> [])"

text \<open>
  One write the parameter can stand for: it accepts a record exactly when its authority
  list is not empty, as a validation declared on an array property does.
\<close>

definition acceptsNonEmpty :: "LaunchpadBatchSubmitAuthorities \<Rightarrow> bool" where
  "acceptsNonEmpty a = (authorities a \<noteq> [])"

section \<open>Numeric order and duplicate-free sequences\<close>

text \<open>
  The number a finite decimal stands for, and the order of decimals read as numbers:
  not-a-number is in no relation, minus infinity is below and plus infinity above every
  number.
\<close>

fun decimal_value :: "decimal \<Rightarrow> rat" where
  "decimal_value (Finite n m ex) = (if n then - 1 else 1) * of_nat m * 10 powi ex"
| "decimal_value _ = 0"

fun numeric_le :: "decimal \<Rightarrow> decimal \<Rightarrow> bool" where
  "numeric_le NaN y = False"
| "numeric_le x NaN = False"
| "numeric_le (Infinity n) (Infinity n') = (n \<or> \<not> n')"
| "numeric_le (Infinity n) (Finite n' m' e') = n"
| "numeric_le (Finite n m ex) (Infinity n') = (\<not> n')"
| "numeric_le (Finite n m ex) (Finite n' m' e') =
     (decimal_value (Finite n m ex) \<le> decimal_value (Finite n' m' e'))"

text \<open>
  A sequence without duplicates, by the equality of a \<open>Set\<close>; and the values which that
  equality compares by content alone and on which it is plain equality (numbers are left
  out: one number has several representations here).
\<close>

fun uniqueValues :: "jsval list \<Rightarrow> bool" where
  "uniqueValues [] = True"
| "uniqueValues (x # xs) = (\<not> list_ex (sameValueZero x) xs \<and> uniqueValues xs)"

fun comparedByContent :: "jsval \<Rightarrow> bool" where
  "comparedByContent Undefined = True"
| "comparedByContent Null = True"
| "comparedByContent (Boolean b) = True"
| "comparedByContent (Str s) = True"
| "comparedByContent _ = False"

section \<open>Comparison of decimals is the order of their values\<close>

lemma powi_split_min:
  fixes d :: int
  assumes "d \<le> e"
  shows "(10::rat) powi e = 10 ^ nat (e - d) * 10 powi d"
proof -
  have "(10::rat) powi e = 10 powi ((e - d) + d)" by simp
  also have "\<dots> = 10 powi (e - d) * 10 powi d"
    by (rule power_int_add) simp
  also have "10 powi (e - d) = (10::rat) ^ nat (e - d)"
    using assms by (simp add: power_int_def)
  finally show ?thesis .
qed

lemma magnitude_compare_value:
  "magnitude_compare m1 e1 m2 e2 =
     (if (of_nat m1 :: rat) * 10 powi e1 < of_nat m2 * 10 powi e2 then - 1
      else if (of_nat m1 :: rat) * 10 powi e1 = of_nat m2 * 10 powi e2 then 0 else 1)"
proof -
  define d where "d = min e1 e2"
  define a where "a = m1 * 10 ^ nat (e1 - d)"
  define b where "b = m2 * 10 ^ nat (e2 - d)"
  have p: "(0::rat) < 10 powi d" by simp
  have v1: "(of_nat m1 :: rat) * 10 powi e1 = of_nat a * 10 powi d"
    using powi_split_min [of d e1] by (simp add: d_def a_def)
  have v2: "(of_nat m2 :: rat) * 10 powi e2 = of_nat b * 10 powi d"
    using powi_split_min [of d e2] by (simp add: d_def b_def)
  have np: "\<not> ((10::rat) powi d \<le> 0)" by (simp add: not_le)
  have lt: "(of_nat a * 10 powi d < (of_nat b :: rat) * 10 powi d) = (a < b)"
    by (simp add: mult_less_cancel_right np)
  have eq: "(of_nat a * 10 powi d = (of_nat b :: rat) * 10 powi d) = (a = b)"
    using p by simp
  have "magnitude_compare m1 e1 m2 e2 = (if a < b then - 1 else if a = b then 0 else 1)"
    by (simp add: magnitude_compare_def Let_def d_def a_def b_def)
  then show ?thesis
    by (simp only: v1 v2 lt eq)
qed

lemma compare_Finite:
  "compare (Finite n m ex) (Finite n' m' e') =
     Some (if decimal_value (Finite n m ex) < decimal_value (Finite n' m' e') then - 1
           else if decimal_value (Finite n m ex) = decimal_value (Finite n' m' e') then 0
           else 1)"
proof -
  define u :: rat where "u = of_nat m * 10 powi ex"
  define v :: rat where "v = of_nat m' * 10 powi e'"
  have mc: "magnitude_compare m ex m' e' = (if u < v then - 1 else if u = v then 0 else 1)"
    by (simp add: magnitude_compare_value u_def v_def)
  have u0: "m = 0 \<Longrightarrow> u = 0" and v0: "m' = 0 \<Longrightarrow> v = 0"
    by (simp_all add: u_def v_def)
  have up: "0 < m \<Longrightarrow> 0 < u" and vp: "0 < m' \<Longrightarrow> 0 < v"
    by (simp_all add: u_def v_def)
  have dx: "decimal_value (Finite n m ex) = (if n then - u else u)"
    by (simp add: u_def)
  have dy: "decimal_value (Finite n' m' e') = (if n' then - v else v)"
    by (simp add: v_def)
  show ?thesis
  proof (cases "m = 0")
    case True
    then show ?thesis
      using u0 v0 vp unfolding dx dy by (cases "m' = 0") (auto simp: not_less)
  next
    case mpos: False
    show ?thesis
    proof (cases "m' = 0")
      case True
      then show ?thesis
        using mpos v0 up unfolding dx dy by (auto simp: not_less)
    next
      case False
      with mpos have "0 < u" "0 < v" using up vp by simp_all
      then show ?thesis
        using mpos False unfolding dx dy
        by (cases n; cases n') (auto simp: mc)
    qed
  qed
qed

lemma isLessThanOrEqualTo_numeric_le:
  "isLessThanOrEqualTo x y = numeric_le x y"
proof (cases x)
  case NaN
  then show ?thesis by (simp add: isLessThanOrEqualTo_def)
next
  case (Infinity n)
  then show ?thesis by (cases y) (auto simp: isLessThanOrEqualTo_def)
next
  case (Finite n m ex)
  show ?thesis
  proof (cases y)
    case NaN
    then show ?thesis using Finite by (simp add: isLessThanOrEqualTo_def)
  next
    case (Infinity n')
    then show ?thesis using Finite by (auto simp: isLessThanOrEqualTo_def)
  next
    case (Finite n' m' e')
    show ?thesis
      unfolding \<open>x = Finite n m ex\<close> Finite isLessThanOrEqualTo_def compare_Finite
      by (auto simp del: decimal_value.simps)
  qed
qed

lemma isZero_value: "isZero b = (isFinite b \<and> decimal_value b = 0)"
  by (cases b) simp_all

section \<open>The size of a set built from a sequence\<close>

lemma Set_add_has: "Set_has s x \<Longrightarrow> Set_add s x = s"
  by (simp add: Set_add_def)

lemma Set_add_new: "\<not> Set_has s x \<Longrightarrow> Set_add s x = s @ [x]"
  by (simp add: Set_add_def)

lemma length_foldl_Set_add_le:
  "length (foldl Set_add s xs) \<le> length s + length xs"
proof (induction xs arbitrary: s)
  case Nil
  show ?case by simp
next
  case (Cons x xs)
  have "length (foldl Set_add (Set_add s x) xs) \<le> length (Set_add s x) + length xs"
    by (rule Cons.IH)
  moreover have "length (Set_add s x) \<le> length s + 1"
    by (cases "Set_has s x") (simp_all add: Set_add_has Set_add_new)
  ultimately show ?case by simp
qed

lemma Set_has_snoc:
  "Set_has (s @ [x]) y = (Set_has s y \<or> sameValueZero x y)"
  by (auto simp: Set_has_def list_ex_iff)

lemma list_ex_Set_has_snoc:
  "list_ex (Set_has (s @ [x])) xs = (list_ex (Set_has s) xs \<or> list_ex (sameValueZero x) xs)"
  by (induction xs) (auto simp: Set_has_snoc)

lemma length_foldl_Set_add_eq:
  "(length (foldl Set_add s xs) = length s + length xs)
     = (uniqueValues xs \<and> \<not> list_ex (Set_has s) xs)"
proof (induction xs arbitrary: s)
  case Nil
  show ?case by simp
next
  case (Cons x xs)
  show ?case
  proof (cases "Set_has s x")
    case True
    have "length (foldl Set_add s xs) \<le> length s + length xs"
      by (rule length_foldl_Set_add_le)
    then have "length (foldl Set_add s xs) \<noteq> length s + length (x # xs)"
      by simp
    with True show ?thesis
      by (simp add: Set_add_has)
  next
    case False
    have "(length (foldl Set_add (s @ [x]) xs) = length (s @ [x]) + length xs)
            = (uniqueValues xs \<and> \<not> list_ex (Set_has (s @ [x])) xs)"
      by (rule Cons.IH)
    then have "(length (foldl Set_add (s @ [x]) xs) = length s + length (x # xs))
            = (uniqueValues xs \<and> \<not> list_ex (Set_has s) xs \<and> \<not> list_ex (sameValueZero x) xs)"
      by (simp add: list_ex_Set_has_snoc)
    with False show ?thesis
      by (simp add: Set_add_new) blast
  qed
qed

lemma not_Set_has_Nil: "\<not> list_ex (Set_has []) xs"
  by (induction xs) (simp_all add: Set_has_def)

lemma Set_size_unique:
  "(Set_size xs = length xs) = uniqueValues xs"
  using length_foldl_Set_add_eq [of "[]" xs]
  by (simp add: Set_size_def new_Set_def not_Set_has_Nil)


lemma uniqueValues_append:
  "uniqueValues (xs @ ys) =
     (uniqueValues xs \<and> uniqueValues ys \<and> \<not> list_ex (\<lambda>x. list_ex (sameValueZero x) ys) xs)"
  by (induction xs) (auto simp: list_ex_iff)


lemma sameValueZero_content:
  "comparedByContent x \<Longrightarrow> sameValueZero x y = (x = y)"
  by (cases x; cases y) simp_all


lemma uniqueValues_distinct:
  "list_all comparedByContent xs \<Longrightarrow> uniqueValues xs = distinct xs"
  by (induction xs) (auto simp: list_ex_iff sameValueZero_content)


lemma distinct_iff_card: "distinct xs = (card (set xs) = length xs)"
  by (blast intro: distinct_card card_distinct)

lemmas parse_defs = fromString_def splitNumeric_def isDigit_def parseExponent_def fromParts_def
  digitsValue_def digitValue_def MAX_EXP_def MIN_EXP_def parseNumeric_def
  stripWhitespaceOrPlus_def isSpace_def isWordChar_def

section \<open>Theorems about the authority registry\<close>


lemma addAuthority_twice:
  "addAuthority (addAuthority a p) p = addAuthority a p"
  by (simp add: addAuthority_def)



lemma count_list_append1:
  "count_list (xs @ [p]) q = count_list xs q + (if p = q then 1 else 0)"
  by (induction xs) auto

lemma count_list_absent:
  "p \<notin> set xs \<Longrightarrow> count_list xs p = 0"
  by (induction xs) auto

lemma count_list_distinct_mem:
  "distinct xs \<Longrightarrow> p \<in> set xs \<Longrightarrow> count_list xs p = 1"
  by (induction xs) (auto simp: count_list_absent)

lemma authorize_absent:
  "state ctx = None \<Longrightarrow>
   authorizeLaunchpadBatchSubmitter accepts ctx ps =
     (if accepts (foldl addAuthority \<lparr>authorities = []\<rparr> ps)
      then Inr (authorities (foldl addAuthority \<lparr>authorities = []\<rparr> ps),
                ctx\<lparr>state := Some (foldl addAuthority \<lparr>authorities = []\<rparr> ps)\<rparr>)
      else Inl (ChainError WRITE_ERROR))"
  by (simp add: authorizeLaunchpadBatchSubmitter_def getObjectByKey_def putChainObject_def
      getAuthorities_def Let_def)

lemma authorize_present:
  "state ctx = Some a \<Longrightarrow>
   authorizeLaunchpadBatchSubmitter accepts ctx ps =
     (if accepts (foldl addAuthority a ps)
      then Inr (authorities (foldl addAuthority a ps),
                ctx\<lparr>state := Some (foldl addAuthority a ps)\<rparr>)
      else Inl (ChainError WRITE_ERROR))"
  by (simp add: authorizeLaunchpadBatchSubmitter_def getObjectByKey_def putChainObject_def
      getAuthorities_def Let_def)

lemma authorize_stored:
  "authorizeLaunchpadBatchSubmitter accepts ctx ps =
     (if accepts (foldl addAuthority \<lparr>authorities = storedAuthorities ctx\<rparr> ps)
      then Inr (authorities (foldl addAuthority \<lparr>authorities = storedAuthorities ctx\<rparr> ps),
                ctx\<lparr>state :=
                  Some (foldl addAuthority \<lparr>authorities = storedAuthorities ctx\<rparr> ps)\<rparr>)
      else Inl (ChainError WRITE_ERROR))"
proof (cases "state ctx")
  case None
  then show ?thesis
    using authorize_absent [OF None, of accepts ps] by (simp add: storedAuthorities_def)
next
  case (Some a)
  have a: "\<lparr>authorities = authorities a\<rparr> = a"
    by (cases a) simp
  show ?thesis
    using authorize_present [OF Some, of accepts ps] Some by (simp add: storedAuthorities_def a)
qed

text \<open>
  C1, as the code has it. For every ledger state in which the authority record has never
  been written, \<open>isAuthorizedForLaunchpadBatchSubmit\<close> does not return false: it awaits
  \<open>fetchLaunchpadBatchSubmitAuthorities\<close> with no handler around it, so the
  \<open>NOT_FOUND\<close> error of the read is signalled to the caller and not absorbed into a
  boolean.
\<close>

theorem C1_isAuthorized_propagates_not_found:
  assumes "state ctx = None"
  shows "isAuthorizedForLaunchpadBatchSubmit ctx = Inl (ChainError NOT_FOUND)"
  using assms
  by (simp add: isAuthorizedForLaunchpadBatchSubmit_def fetchLaunchpadBatchSubmitAuthorities_def
      getObjectByKey_def)

theorem C1_isAuthorized_propagates_not_found_witness:
  "state \<lparr>callingUser = ''alice'', state = None\<rparr> = None
   \<and> isAuthorizedForLaunchpadBatchSubmit \<lparr>callingUser = ''alice'', state = None\<rparr>
       = Inl (ChainError NOT_FOUND)"
proof -
  have h: "state \<lparr>callingUser = ''alice'', state = None\<rparr> = None"
    by simp
  from h C1_isAuthorized_propagates_not_found [OF h] show ?thesis
    by (rule conjI)
qed

text \<open>
  C1, as the spec states it, fails: on the ledger with no authority record the result is
  not the boolean \<open>false\<close> but the error.
\<close>

theorem C1_isAuthorized_absent_counterexample:
  "isAuthorizedForLaunchpadBatchSubmit \<lparr>callingUser = ''alice'', state = None\<rparr> \<noteq> Inr False"
  by (simp add: isAuthorizedForLaunchpadBatchSubmit_def fetchLaunchpadBatchSubmitAuthorities_def
      getObjectByKey_def)




text \<open>
  C4. For every principal \<open>p\<close> and every starting authority set without duplicates
  (the stored list \<open>old\<close>, or the empty list when no record is stored), let \<open>new\<close> be
  \<open>old\<close> if it holds \<open>p\<close> already and \<open>old\<close> with \<open>p\<close> appended otherwise. When
  the write accepts the record of \<open>new\<close>, authorizing \<open>[p]\<close> returns \<open>new\<close> and
  stores it; authorizing \<open>[p]\<close> again on the resulting ledger returns \<open>new\<close> again
  and leaves that ledger as it is; authorizing \<open>[p, p]\<close> in one call does the same;
  \<open>p\<close> occurs exactly once in \<open>new\<close>, which has no duplicates and holds \<open>p\<close> and
  the former principals and nothing else; and when \<open>p\<close> was already present the
  ledger does not change at all. When the write rejects that record, each of these calls
  signals the write's error.
\<close>

theorem C4_authorize_idempotent:
  fixes ctx :: GalaChainContext and p :: string
  defines "old \<equiv> storedAuthorities ctx"
  defines "new \<equiv> (if p \<in> set old then old else old @ [p])"
  defines "ctx' \<equiv> ctx\<lparr>state := Some \<lparr>authorities = new\<rparr>\<rparr>"
  assumes inv: "authority_set_invariant (state ctx)"
  shows "(accepts \<lparr>authorities = new\<rparr> \<longrightarrow>
            authorizeLaunchpadBatchSubmitter accepts ctx [p] = Inr (new, ctx')
          \<and> authorizeLaunchpadBatchSubmitter accepts ctx' [p] = Inr (new, ctx')
          \<and> authorizeLaunchpadBatchSubmitter accepts ctx [p, p] = Inr (new, ctx')
          \<and> state ctx' = Some \<lparr>authorities = new\<rparr>
          \<and> p \<in> set new
          \<and> count_list new p = 1
          \<and> distinct new
          \<and> set new = insert p (set old)
          \<and> (p \<in> set old \<longrightarrow> new = old \<and> ctx' = ctx))
       \<and> (\<not> accepts \<lparr>authorities = new\<rparr> \<longrightarrow>
            authorizeLaunchpadBatchSubmitter accepts ctx [p] = Inl (ChainError WRITE_ERROR)
          \<and> authorizeLaunchpadBatchSubmitter accepts ctx [p, p] = Inl (ChainError WRITE_ERROR))"
proof -
  have pin: "p \<in> set new"
    by (simp add: new_def)
  have A: "addAuthority \<lparr>authorities = old\<rparr> p = \<lparr>authorities = new\<rparr>"
    by (simp add: addAuthority_def new_def)
  have B: "addAuthority \<lparr>authorities = new\<rparr> p = \<lparr>authorities = new\<rparr>"
    using pin by (simp add: addAuthority_def)
  have d: "distinct old"
    using inv
    by (simp add: authority_set_invariant_def storedAuthorities_def old_def split: option.splits)
  have dn: "distinct new"
    using d by (simp add: new_def)
  have cn: "count_list new p = 1"
    using dn pin by (rule count_list_distinct_mem)
  have sn: "set new = insert p (set old)"
    by (auto simp: new_def)
  have st': "state ctx' = Some \<lparr>authorities = new\<rparr>"
    by (simp add: ctx'_def)
  have so': "storedAuthorities ctx' = new"
    by (simp add: storedAuthorities_def st')
  have c'': "ctx'\<lparr>state := Some \<lparr>authorities = new\<rparr>\<rparr> = ctx'"
    by (simp add: ctx'_def)
  have 1: "authorizeLaunchpadBatchSubmitter accepts ctx [p] =
             (if accepts \<lparr>authorities = new\<rparr> then Inr (new, ctx')
              else Inl (ChainError WRITE_ERROR))"
    using authorize_stored [of accepts ctx "[p]", folded old_def]
    by (simp add: A ctx'_def)
  have 2: "authorizeLaunchpadBatchSubmitter accepts ctx' [p] =
             (if accepts \<lparr>authorities = new\<rparr> then Inr (new, ctx')
              else Inl (ChainError WRITE_ERROR))"
    using authorize_stored [of accepts ctx' "[p]"]
    by (simp add: so' B c'')
  have 3: "authorizeLaunchpadBatchSubmitter accepts ctx [p, p] =
             (if accepts \<lparr>authorities = new\<rparr> then Inr (new, ctx')
              else Inl (ChainError WRITE_ERROR))"
    using authorize_stored [of accepts ctx "[p, p]", folded old_def]
    by (simp add: A B ctx'_def)
  have same: "new = old \<and> ctx' = ctx" if "p \<in> set old"
  proof -
    from that have no: "new = old"
      by (simp add: new_def)
    from that obtain a where a: "state ctx = Some a"
      by (cases "state ctx") (auto simp: old_def storedAuthorities_def)
    then have "a = \<lparr>authorities = old\<rparr>"
      by (simp add: old_def storedAuthorities_def)
    with a have "ctx' = ctx"
      by (simp add: ctx'_def no)
    with no show ?thesis ..
  qed
  show ?thesis
  proof (intro conjI impI)
    assume acc: "accepts \<lparr>authorities = new\<rparr>"
    show "authorizeLaunchpadBatchSubmitter accepts ctx [p] = Inr (new, ctx')"
      using 1 acc by simp
    show "authorizeLaunchpadBatchSubmitter accepts ctx' [p] = Inr (new, ctx')"
      using 2 acc by simp
    show "authorizeLaunchpadBatchSubmitter accepts ctx [p, p] = Inr (new, ctx')"
      using 3 acc by simp
  next
    assume rej: "\<not> accepts \<lparr>authorities = new\<rparr>"
    show "authorizeLaunchpadBatchSubmitter accepts ctx [p] = Inl (ChainError WRITE_ERROR)"
      using 1 rej by simp
    show "authorizeLaunchpadBatchSubmitter accepts ctx [p, p] = Inl (ChainError WRITE_ERROR)"
      using 3 rej by simp
  next
    assume "p \<in> set old"
    then show "new = old" using same by simp
  next
    assume "p \<in> set old"
    then show "ctx' = ctx" using same by simp
  qed (rule st' pin cn dn sn)+
qed

theorem C4_authorize_idempotent_witness:
  "authority_set_invariant
     (state \<lparr>callingUser = ''admin'', state = Some \<lparr>authorities = [''bob'']\<rparr>\<rparr>)
   \<and> authorizeLaunchpadBatchSubmitter acceptsNonEmpty
         \<lparr>callingUser = ''admin'', state = Some \<lparr>authorities = [''bob'']\<rparr>\<rparr> [''alice'']
       = Inr ([''bob'', ''alice''],
              \<lparr>callingUser = ''admin'', state = Some \<lparr>authorities = [''bob'', ''alice'']\<rparr>\<rparr>)
   \<and> authorizeLaunchpadBatchSubmitter acceptsNonEmpty
         \<lparr>callingUser = ''admin'', state = Some \<lparr>authorities = [''bob'', ''alice'']\<rparr>\<rparr>
         [''alice'']
       = Inr ([''bob'', ''alice''],
              \<lparr>callingUser = ''admin'', state = Some \<lparr>authorities = [''bob'', ''alice'']\<rparr>\<rparr>)
   \<and> count_list [''bob'', ''alice''] ''alice'' = 1"
proof -
  let ?ctx = "\<lparr>callingUser = ''admin'', state = Some \<lparr>authorities = [''bob'']\<rparr>\<rparr>"
  have h: "authority_set_invariant (state ?ctx)"
    by (simp add: authority_set_invariant_def)
  show ?thesis
    using h C4_authorize_idempotent
              [OF h, where accepts = acceptsNonEmpty and p = "''alice''"]
    by (simp add: storedAuthorities_def acceptsNonEmpty_def)
qed

section \<open>Theorems about the validators\<close>

text \<open>
  C2, as the code has it. When the value of the decorated property and the value of the
  related property are each a string or \<open>undefined\<close>, \<open>IsDifferentValue\<close> returns
  whether the two are not strictly equal: true for two strings of different content and
  for a string against \<open>undefined\<close>, false for two equal strings and for
  \<open>undefined\<close> against \<open>undefined\<close>. When either value is neither a string nor
  \<open>undefined\<close> it raises \<open>NotImplementedError\<close> and returns no verdict.
\<close>

theorem C2_IsDifferentValue_strict_inequality:
  "IsDifferentValue_validate v r =
     (case (v, r) of
        (Str a, Str b) \<Rightarrow> Inr (a \<noteq> b)
      | (Str a, Undefined) \<Rightarrow> Inr True
      | (Undefined, Str b) \<Rightarrow> Inr True
      | (Undefined, Undefined) \<Rightarrow> Inr False
      | _ \<Rightarrow> Inl NotImplementedError)"
  by (cases v; cases r) (simp_all add: IsDifferentValue_validate_def)

theorem C2_IsDifferentValue_strict_inequality_witness:
  "IsDifferentValue_validate (Str ''a'') (Str ''b'') = Inr True
   \<and> IsDifferentValue_validate (Str ''a'') (Str ''a'') = Inr False
   \<and> IsDifferentValue_validate (Str ''a'') (Number NaN) = Inl NotImplementedError"
  using C2_IsDifferentValue_strict_inequality [of "Str ''a''" "Str ''b''"]
        C2_IsDifferentValue_strict_inequality [of "Str ''a''" "Str ''a''"]
        C2_IsDifferentValue_strict_inequality [of "Str ''a''" "Number NaN"]
  by simp

text \<open>
  C2, as the spec states it, fails twice: two \<open>undefined\<close> values do not pass, and a
  string against \<open>undefined\<close> does.
\<close>

theorem C2_IsDifferentValue_undefined_counterexample:
  "IsDifferentValue_validate Undefined Undefined = Inr False
   \<and> IsDifferentValue_validate (Str ''a'') Undefined = Inr True"
  by (simp add: IsDifferentValue_validate_def)

text \<open>
  C5. For every value, each of the five constraints (positive, negative, non-negative,
  integer, finite) returns true when the value is not an instance of the decimal class,
  and otherwise returns what the corresponding predicate of the decimal returns. The
  type constraint registered with them is the one that fails on a value of another type.
\<close>

theorem C5_decimal_predicates_ignore_other_types:
  "BigNumberIsPositive_validate v = (case v of BigNum r b \<Rightarrow> isPositive b | _ \<Rightarrow> True)
   \<and> BigNumberIsNegative_validate v = (case v of BigNum r b \<Rightarrow> isNegative b | _ \<Rightarrow> True)
   \<and> BigNumberIsNotNegative_validate v = (case v of BigNum r b \<Rightarrow> \<not> isNegative b | _ \<Rightarrow> True)
   \<and> BigNumberIsInteger_validate v = (case v of BigNum r b \<Rightarrow> isInteger b | _ \<Rightarrow> True)
   \<and> BigNumberIsNotInfinity_validate v = (case v of BigNum r b \<Rightarrow> isFinite b | _ \<Rightarrow> True)
   \<and> IsBigNumber_validate v = (case v of BigNum r b \<Rightarrow> True | _ \<Rightarrow> False)"
  by (cases v)
     (simp_all add: BigNumberIsPositive_validate_def BigNumberIsNegative_validate_def
        BigNumberIsNotNegative_validate_def BigNumberIsInteger_validate_def
        BigNumberIsNotInfinity_validate_def validateBigNumberOrIgnore_def isBigNumber_def
        IsBigNumber_validate_def)

theorem C5_decimal_predicates_ignore_other_types_witness:
  "BigNumberIsPositive_validate (Str ''-5'') = True
   \<and> BigNumberIsPositive_validate (BigNum 0 (Finite True 5 0)) = False
   \<and> BigNumberIsNegative_validate (BigNum 0 (Finite True 5 0)) = True
   \<and> BigNumberIsInteger_validate (BigNum 0 (Finite False 15 (- 1))) = False
   \<and> BigNumberIsNotInfinity_validate (BigNum 0 (Infinity False)) = False
   \<and> BigNumberIsNotInfinity_validate Null = True
   \<and> IsBigNumber_validate Null = False"
  using C5_decimal_predicates_ignore_other_types [of "Str ''-5''"]
        C5_decimal_predicates_ignore_other_types [of "BigNum 0 (Finite True 5 0)"]
        C5_decimal_predicates_ignore_other_types [of "BigNum 0 (Finite False 15 (- 1))"]
        C5_decimal_predicates_ignore_other_types [of "BigNum 0 (Infinity False)"]
        C5_decimal_predicates_ignore_other_types [of Null]
  by (simp add: isPositive_def isNegative_def)

text \<open>
  C6. For every value, \<open>IsNonZeroBigNumber\<close> returns true exactly when the value is an
  instance of the decimal class that is not zero, where zero means finite with the
  numeric value 0. The strings \<open>0\<close> and \<open>0.0\<close> both construct the zero decimal, which
  fails, and a value that is not an instance, such as a plain string, fails.
\<close>

theorem C6_IsNonZeroBigNumber:
  "IsNonZeroBigNumber_validate v = (case v of BigNum r b \<Rightarrow> \<not> isZero b | _ \<Rightarrow> False)
   \<and> isZero d = (isFinite d \<and> decimal_value d = 0)
   \<and> BigNumber_new (Str ''0'') = Inr (Finite False 0 0)
   \<and> BigNumber_new (Str ''0.0'') = Inr (Finite False 0 0)
   \<and> IsNonZeroBigNumber_validate (BigNum r' (Finite False 0 0)) = False
   \<and> IsNonZeroBigNumber_validate (Str s) = False"
proof -
  have 1: "IsNonZeroBigNumber_validate v = (case v of BigNum r b \<Rightarrow> \<not> isZero b | _ \<Rightarrow> False)"
    by (simp add: IsNonZeroBigNumber_validate_def)
  have 2: "BigNumber_new (Str ''0'') = Inr (Finite False 0 0)"
    by (simp add: BigNumber_new_def parse_defs)
  have 3: "BigNumber_new (Str ''0.0'') = Inr (Finite False 0 0)"
    by (simp add: BigNumber_new_def parse_defs)
  have 4: "IsNonZeroBigNumber_validate (BigNum r' (Finite False 0 0)) = False"
    by (simp add: IsNonZeroBigNumber_validate_def)
  have 5: "IsNonZeroBigNumber_validate (Str s) = False"
    by (simp add: IsNonZeroBigNumber_validate_def)
  from 1 isZero_value [of d] 2 3 4 5 show ?thesis
    by (intro conjI)
qed

theorem C6_IsNonZeroBigNumber_witness:
  "IsNonZeroBigNumber_validate (BigNum 0 (Finite False 5 (- 1))) = True
   \<and> IsNonZeroBigNumber_validate (BigNum 0 (Finite True 0 3)) = False
   \<and> IsNonZeroBigNumber_validate (Str ''1'') = False"
  using C6_IsNonZeroBigNumber [of "BigNum 0 (Finite False 5 (- 1))" NaN 0 "''1''"]
        C6_IsNonZeroBigNumber [of "BigNum 0 (Finite True 0 3)" NaN 0 "''1''"]
  by simp

text \<open>
  C7. For every value and every bound, \<open>BigNumberMax\<close> returns true exactly when the
  decimal constructed from the value is, as a number, at most the bound. A value whose
  construction throws, and a value that parses to not-a-number, make it return false.
  With the bound 100: the string \<open>100\<close> passes, \<open>100.0000001\<close> fails, and the
  non-numeric string \<open>abc\<close> fails.
\<close>

theorem C7_BigNumberMax:
  "BigNumberMax_validate maxv v =
     (case BigNumber_new v of Inl e \<Rightarrow> False | Inr bn \<Rightarrow> numeric_le bn maxv)
   \<and> (BigNumber_new v = Inr NaN \<longrightarrow> BigNumberMax_validate maxv v = False)
   \<and> BigNumber_new (Number (Finite False 100 0)) = Inr (Finite False 100 0)
   \<and> BigNumberMax_validate (Finite False 100 0) (Str ''100'') = True
   \<and> BigNumberMax_validate (Finite False 100 0) (Str ''100.0000001'') = False
   \<and> BigNumberMax_validate (Finite False 100 0) (Str ''abc'') = False"
proof -
  have 1: "BigNumberMax_validate maxv v =
     (case BigNumber_new v of Inl e \<Rightarrow> False | Inr bn \<Rightarrow> numeric_le bn maxv)"
    by (simp add: BigNumberMax_validate_def isLessThanOrEqualTo_numeric_le split: sum.splits)
  have 2: "BigNumber_new v = Inr NaN \<longrightarrow> BigNumberMax_validate maxv v = False"
    by (simp add: 1)
  have 3: "BigNumber_new (Number (Finite False 100 0)) = Inr (Finite False 100 0)"
    by (simp add: BigNumber_new_def)
  have 4: "BigNumberMax_validate (Finite False 100 0) (Str ''100'') = True"
    by (simp add: BigNumberMax_validate_def BigNumber_new_def parse_defs
        isLessThanOrEqualTo_def magnitude_compare_def)
  have 5: "BigNumberMax_validate (Finite False 100 0) (Str ''100.0000001'') = False"
    by (simp add: BigNumberMax_validate_def BigNumber_new_def parse_defs
        isLessThanOrEqualTo_def magnitude_compare_def)
  have 6: "BigNumberMax_validate (Finite False 100 0) (Str ''abc'') = False"
    by (simp add: BigNumberMax_validate_def BigNumber_new_def parse_defs
        isLessThanOrEqualTo_def)
  from 1 2 3 4 5 6 show ?thesis
    by (intro conjI)
qed

theorem C7_BigNumberMax_witness:
  "BigNumber_new (Array 0 []) = Inr NaN
   \<and> BigNumberMax_validate (Finite False 100 0) (Array 0 []) = False
   \<and> BigNumberMax_validate (Finite False 100 0) (Object 0 None) = False
   \<and> BigNumberMax_validate (Finite False 100 0) (BigNum 0 (Finite False 1 2)) = True
   \<and> BigNumberMax_validate (Finite False 100 0) (BigNum 0 (Finite False 1001 (- 1))) = False"
proof -
  have h: "BigNumber_new (Array 0 []) = Inr NaN"
    by (simp add: BigNumber_new_def parse_defs)
  have o: "BigNumber_new (Object 0 None) = Inl TypeError"
    by (simp add: BigNumber_new_def)
  have b: "BigNumber_new (BigNum 0 (Finite False 1 2)) = Inr (Finite False 1 2)"
    by (simp add: BigNumber_new_def)
  have c: "BigNumber_new (BigNum 0 (Finite False 1001 (- 1))) = Inr (Finite False 1001 (- 1))"
    by (simp add: BigNumber_new_def)
  show ?thesis
    using h o b c
      C7_BigNumberMax [of "Finite False 100 0" "Array 0 []"]
      C7_BigNumberMax [of "Finite False 100 0" "Object 0 None"]
      C7_BigNumberMax [of "Finite False 100 0" "BigNum 0 (Finite False 1 2)"]
      C7_BigNumberMax [of "Finite False 100 0" "BigNum 0 (Finite False 1001 (- 1))"]
    by (simp add: power_int_def)
qed

text \<open>
  C8. For every pair of arrays \<open>A\<close> (the related property) and \<open>B\<close> (the decorated
  property), \<open>ArrayUniqueConcat\<close> returns whether the set built from \<open>A\<close> followed by
  \<open>B\<close> has as many elements as the two arrays together, which holds exactly when no
  value occurs twice in \<open>A\<close>, none occurs twice in \<open>B\<close>, and none occurs in both. For
  elements compared by content this is the cardinality of the set of the elements, and
  the arrays are duplicate-free and disjoint.
\<close>

theorem C8_ArrayUniqueConcat_arrays:
  "ArrayUniqueConcat_validate (Array rb B) (Array ra A)
     = Inr (Set_size (A @ B) = length A + length B)
   \<and> (Set_size (A @ B) = length A + length B) =
       (uniqueValues A \<and> uniqueValues B
        \<and> \<not> list_ex (\<lambda>a. list_ex (sameValueZero a) B) A)
   \<and> (list_all comparedByContent (A @ B) \<longrightarrow>
        (Set_size (A @ B) = length A + length B)
          = (card (set (A @ B)) = length A + length B)
      \<and> (Set_size (A @ B) = length A + length B)
          = (distinct A \<and> distinct B \<and> set A \<inter> set B = {}))"
proof (intro conjI impI)
  have len: "length A + length B = length (A @ B)"
    by simp
  have u: "(Set_size (A @ B) = length A + length B) = uniqueValues (A @ B)"
    unfolding len by (rule Set_size_unique)
  show "ArrayUniqueConcat_validate (Array rb B) (Array ra A)
          = Inr (Set_size (A @ B) = length A + length B)"
    by (simp add: ArrayUniqueConcat_validate_def lengthProperty_def)
  show "(Set_size (A @ B) = length A + length B) =
       (uniqueValues A \<and> uniqueValues B
        \<and> \<not> list_ex (\<lambda>a. list_ex (sameValueZero a) B) A)"
    unfolding u by (rule uniqueValues_append)
  assume c: "list_all comparedByContent (A @ B)"
  have d: "(Set_size (A @ B) = length (A @ B)) = distinct (A @ B)"
    by (simp only: Set_size_unique uniqueValues_distinct [OF c])
  show "(Set_size (A @ B) = length A + length B)
          = (card (set (A @ B)) = length A + length B)"
    unfolding len d by (rule distinct_iff_card)
  show "(Set_size (A @ B) = length A + length B)
          = (distinct A \<and> distinct B \<and> set A \<inter> set B = {})"
    unfolding len d by (rule distinct_append)
qed

theorem C8_ArrayUniqueConcat_arrays_witness:
  "list_all comparedByContent ([Str ''a'', Str ''b''] @ [Str ''c''])
   \<and> ArrayUniqueConcat_validate (Array 1 [Str ''c'']) (Array 0 [Str ''a'', Str ''b'']) = Inr True
   \<and> list_all comparedByContent ([Str ''a'', Str ''b''] @ [Str ''b''])
   \<and> ArrayUniqueConcat_validate (Array 1 [Str ''b'']) (Array 0 [Str ''a'', Str ''b'']) = Inr False
   \<and> ArrayUniqueConcat_validate (Array 1 []) (Array 0 [Str ''a'', Str ''a'']) = Inr False"
proof -
  have h1: "list_all comparedByContent ([Str ''a'', Str ''b''] @ [Str ''c''])"
    by simp
  have h2: "list_all comparedByContent ([Str ''a'', Str ''b''] @ [Str ''b''])"
    by simp
  have h3: "list_all comparedByContent ([Str ''a'', Str ''a''] @ [])"
    by simp
  show ?thesis
    using h1 h2 h3
      C8_ArrayUniqueConcat_arrays [of 1 "[Str ''c'']" 0 "[Str ''a'', Str ''b'']"]
      C8_ArrayUniqueConcat_arrays [of 1 "[Str ''b'']" 0 "[Str ''a'', Str ''b'']"]
      C8_ArrayUniqueConcat_arrays [of 1 "[]" 0 "[Str ''a'', Str ''a'']"]
    by simp
qed

text \<open>
  C9. A zero decimal with positive sign passes \<open>BigNumberIsPositive\<close>, whatever its
  exponent: the predicate reads the sign and not whether the value exceeds zero. The
  string \<open>0\<close> and the number 0 construct such a zero.
\<close>

theorem C9_positive_zero_passes_BigNumberIsPositive:
  "BigNumberIsPositive_validate (BigNum r (Finite False 0 ex)) = True
   \<and> decimal_value (Finite False 0 ex) = 0
   \<and> BigNumber_new (Str ''0'') = Inr (Finite False 0 0)
   \<and> BigNumber_new (Number (Finite False 0 0)) = Inr (Finite False 0 0)"
proof -
  have 1: "BigNumberIsPositive_validate (BigNum r (Finite False 0 ex)) = True"
    by (simp add: BigNumberIsPositive_validate_def validateBigNumberOrIgnore_def
        isBigNumber_def isPositive_def)
  have 2: "decimal_value (Finite False 0 ex) = 0"
    by simp
  have 3: "BigNumber_new (Str ''0'') = Inr (Finite False 0 0)"
    by (simp add: BigNumber_new_def parse_defs)
  have 4: "BigNumber_new (Number (Finite False 0 0)) = Inr (Finite False 0 0)"
    by (simp add: BigNumber_new_def)
  from 1 2 3 4 show ?thesis
    by (intro conjI)
qed

theorem C9_positive_zero_passes_BigNumberIsPositive_witness:
  "BigNumberIsPositive_validate (BigNum 7 (Finite False 0 0)) = True"
  using C9_positive_zero_passes_BigNumberIsPositive [of 7 0]
  by simp

text \<open>
  C10. \<open>ArrayUniqueConcat\<close> does not return a verdict on every input: whatever the
  value of the decorated property, when the related property is \<open>undefined\<close>,
  \<open>null\<close>, or a value without a \<open>concat\<close> method (a boolean, a number, a decimal, a
  plain object), the method throws a \<open>TypeError\<close>.
\<close>

theorem C10_ArrayUniqueConcat_throws:
  "ArrayUniqueConcat_validate v Undefined = Inl TypeError
   \<and> ArrayUniqueConcat_validate v Null = Inl TypeError
   \<and> ArrayUniqueConcat_validate v (Boolean b) = Inl TypeError
   \<and> ArrayUniqueConcat_validate v (Number d) = Inl TypeError
   \<and> ArrayUniqueConcat_validate v (BigNum r d) = Inl TypeError
   \<and> ArrayUniqueConcat_validate v (Object r s) = Inl TypeError"
  by (simp add: ArrayUniqueConcat_validate_def)

theorem C10_ArrayUniqueConcat_throws_witness:
  "ArrayUniqueConcat_validate (Array 0 [Str ''a'']) Undefined = Inl TypeError
   \<and> ArrayUniqueConcat_validate (Array 0 [Str ''a'']) Null = Inl TypeError
   \<and> ArrayUniqueConcat_validate (Array 0 [Str ''a'']) (Object 0 (Some ''[object Object]''))
       = Inl TypeError"
  using C10_ArrayUniqueConcat_throws
          [of "Array 0 [Str ''a'']" True NaN 0 "Some ''[object Object]''"]
  by simp

end
